theory Spec2Isabelle
  imports Main
begin

section \<open>Python values, exceptions and strings\<close>

text \<open>
  The module \<^verbatim>\<open>langchain_community/utilities/anysdk.py\<close> wraps the callable attributes
  of an SDK client as tools, filtered by the CRUD controls. A Python \<^verbatim>\<open>str\<close> is modelled
  as the list of its code points, for code points below 256 (\<^typ>\<open>string\<close>). The values
  that travel through the module (tool inputs, keyword arguments, results, configuration
  entries) are Python objects; floating point numbers are left out.
\<close>

datatype pyval =
    PyNone
  | PyBool bool
  | PyInt int
  | PyStr string
  | PyList "pyval list"
  | PyDict "(pyval \<times> pyval) list"

text \<open>The exception classes the module can meet; \<open>OtherError\<close> stands for every other
  class (a network failure, an error of the SDK), with its message. \<^verbatim>\<open>JSONDecodeError\<close> is a
  subclass of \<^verbatim>\<open>ValueError\<close> in Python; a handler for the subclass does not catch a plain
  \<^verbatim>\<open>ValueError\<close>, and the two are kept apart here.\<close>

datatype exc =
    AttributeError
  | TypeError
  | KeyError
  | ValueError
  | JSONDecodeError
  | RecursionError
  | AssertionError
  | ValidationError
  | OtherError string

text \<open>Sequencing of statements that may raise: the first exception ends the block.\<close>

definition bind_exc :: "exc + 'a \<Rightarrow> ('a \<Rightarrow> exc + 'b) \<Rightarrow> exc + 'b" where
  "bind_exc m f = (case m of Inl e \<Rightarrow> Inl e | Inr x \<Rightarrow> f x)"

text \<open>\<^verbatim>\<open>bool(v)\<close>: Python's truth value of an object.\<close>

fun truthy :: "pyval \<Rightarrow> bool" where
  "truthy PyNone = False"
| "truthy (PyBool b) = b"
| "truthy (PyInt n) = (n \<noteq> 0)"
| "truthy (PyStr s) = (s \<noteq> [])"
| "truthy (PyList xs) = (xs \<noteq> [])"
| "truthy (PyDict kvs) = (kvs \<noteq> [])"

text \<open>\<^verbatim>\<open>str.lower()\<close> on code points below 256: the upper case letters are
  \<open>A\<close> to \<open>Z\<close> (65 to 90) and the Latin-1 capitals 192 to 222 without the
  multiplication sign 215; each maps to the code point 32 above.\<close>

definition lower_char :: "char \<Rightarrow> char" where
  "lower_char c =
     (let n = (of_char c :: nat)
      in if (65 \<le> n \<and> n \<le> 90) \<or> (192 \<le> n \<and> n \<le> 222 \<and> n \<noteq> 215)
         then char_of (n + 32) else c)"

definition lower :: "string \<Rightarrow> string" where
  "lower s = map lower_char s"

text \<open>\<^verbatim>\<open>s.startswith(p)\<close>.\<close>

fun startswith :: "string \<Rightarrow> string \<Rightarrow> bool" where
  "startswith s [] = True"
| "startswith [] (p # ps) = False"
| "startswith (c # cs) (p # ps) = (c = p \<and> startswith cs ps)"

text \<open>\<^verbatim>\<open>w in s\<close> for two strings: \<open>w\<close> occurs in \<open>s\<close> as a contiguous run (the empty
  string occurs in every string).\<close>

fun str_in :: "string \<Rightarrow> string \<Rightarrow> bool" where
  "str_in w [] = (w = [])"
| "str_in w (c # cs) = (startswith (c # cs) w \<or> str_in w cs)"

text \<open>\<^verbatim>\<open>s.split(",")\<close>: the pieces of \<open>s\<close> between its commas, in order; the result
  always has one piece more than \<open>s\<close> has commas.\<close>

fun split_comma :: "string \<Rightarrow> string list" where
  "split_comma [] = [[]]"
| "split_comma (c # cs) =
     (if c = CHR '','' then [] # split_comma cs
      else (case split_comma cs of
              [] \<Rightarrow> [[c]]
            | w # ws \<Rightarrow> (c # w) # ws))"

text \<open>\<^verbatim>\<open>v.split(",")\<close> on an arbitrary object: only a \<^verbatim>\<open>str\<close> has the method, every
  other value of the model raises \<^verbatim>\<open>AttributeError\<close>.\<close>

fun py_split :: "pyval \<Rightarrow> exc + string list" where
  "py_split (PyStr s) = Inr (split_comma s)"
| "py_split v = Inl AttributeError"

section \<open>The CRUD controls\<close>

text \<open>The module constants (lines 13 to 21 of the source).\<close>

definition ANYSDK_CRUD_CONTROLS_CREATE :: bool where
  "ANYSDK_CRUD_CONTROLS_CREATE = False"

definition ANYSDK_CRUD_CONTROLS_READ :: bool where
  "ANYSDK_CRUD_CONTROLS_READ = True"

definition ANYSDK_CRUD_CONTROLS_UPDATE :: bool where
  "ANYSDK_CRUD_CONTROLS_UPDATE = False"

definition ANYSDK_CRUD_CONTROLS_DELETE :: bool where
  "ANYSDK_CRUD_CONTROLS_DELETE = False"

definition ANYSDK_CRUD_CONTROLS_CREATE_LIST :: string where
  "ANYSDK_CRUD_CONTROLS_CREATE_LIST = ''create''"

definition ANYSDK_CRUD_CONTROLS_READ_LIST :: string where
  "ANYSDK_CRUD_CONTROLS_READ_LIST = ''get,read,list''"

definition ANYSDK_CRUD_CONTROLS_UPDATE_LIST :: string where
  "ANYSDK_CRUD_CONTROLS_UPDATE_LIST = ''update,put,post''"

definition ANYSDK_CRUD_CONTROLS_DELETE_LIST :: string where
  "ANYSDK_CRUD_CONTROLS_DELETE_LIST = ''delete,destroy,remove''"

text \<open>The \<^verbatim>\<open>values\<close> dictionary of the validator, and the environment variables.\<close>

type_synonym pydict = "string \<rightharpoonup> pyval"

type_synonym environ = "string \<rightharpoonup> string"

text \<open>
  \<^verbatim>\<open>get_from_dict_or_env(data, key, env_key, default)\<close> is imported from
  \<^verbatim>\<open>langchain_core.utils\<close>, which is not among the sources. The validator takes it as a
  parameter of this type: it returns a value or raises.
\<close>

type_synonym lookup = "pydict \<Rightarrow> string \<Rightarrow> string \<Rightarrow> pyval \<Rightarrow> exc + pyval"

text \<open>
  Modelled from the spec: \<^verbatim>\<open>get_from_dict_or_env\<close> of \<^verbatim>\<open>langchain_core.utils\<close> is
  missing from the sources. The spec says of it: "each individually optional; missing
  fields resolve via environment lookup, then a built-in default", and "each overridable
  by a correspondingly named environment variable, each falling back to a hardcoded
  default". A field counts as missing when the dictionary has no entry for it or a falsy
  one (the field defaults \<^verbatim>\<open>None\<close> and \<^verbatim>\<open>False\<close> of the class are such entries); an unset
  or empty environment variable counts as missing too.
\<close>

definition get_from_dict_or_env :: "environ \<Rightarrow> lookup" where
  "get_from_dict_or_env env data key env_key dflt =
     (case data key of
        Some v \<Rightarrow>
          if truthy v then Inr v
          else (case env env_key of
                  Some s \<Rightarrow> if s \<noteq> [] then Inr (PyStr s) else Inr dflt
                | None \<Rightarrow> Inr dflt)
      | None \<Rightarrow>
          (case env env_key of
             Some s \<Rightarrow> if s \<noteq> [] then Inr (PyStr s) else Inr dflt
           | None \<Rightarrow> Inr dflt))"

text \<open>
  \<^verbatim>\<open>CrudControls.validate_environment(values)\<close>. The source repeats two steps four times:
  \<^verbatim>\<open>values[key] = bool(get_from_dict_or_env(values, key, env_key, default))\<close> for a gate and
  \<^verbatim>\<open>values[key] = get_from_dict_or_env(values, key, env_key, default).split(",")\<close> for a
  keyword list. The dictionary is updated in place and handed to the next lookup.
\<close>

definition set_gate :: "lookup \<Rightarrow> string \<Rightarrow> string \<Rightarrow> bool \<Rightarrow> pydict \<Rightarrow> exc + pydict" where
  "set_gate get key env_key dflt values =
     bind_exc (get values key env_key (PyBool dflt))
       (\<lambda>v. Inr (values(key \<mapsto> PyBool (truthy v))))"

definition set_list :: "lookup \<Rightarrow> string \<Rightarrow> string \<Rightarrow> string \<Rightarrow> pydict \<Rightarrow> exc + pydict" where
  "set_list get key env_key dflt values =
     bind_exc (get values key env_key (PyStr dflt))
       (\<lambda>v. bind_exc (py_split v)
          (\<lambda>ws. Inr (values(key \<mapsto> PyList (map PyStr ws)))))"

definition validate_environment :: "lookup \<Rightarrow> pydict \<Rightarrow> exc + pydict" where
  "validate_environment get values =
     bind_exc (set_gate get ''create'' ''ANYSDK_CRUD_CONTROLS_CREATE''
                 ANYSDK_CRUD_CONTROLS_CREATE values)
    (\<lambda>values. bind_exc (set_list get ''create_list'' ''ANYSDK_CRUD_CONTROLS_CREATE_LIST''
                 ANYSDK_CRUD_CONTROLS_CREATE_LIST values)
    (\<lambda>values. bind_exc (set_gate get ''read'' ''ANYSDK_CRUD_CONTROLS_READ''
                 ANYSDK_CRUD_CONTROLS_READ values)
    (\<lambda>values. bind_exc (set_list get ''read_list'' ''ANYSDK_CRUD_CONTROLS_READ_LIST''
                 ANYSDK_CRUD_CONTROLS_READ_LIST values)
    (\<lambda>values. bind_exc (set_gate get ''update'' ''ANYSDK_CRUD_CONTROLS_UPDATE''
                 ANYSDK_CRUD_CONTROLS_UPDATE values)
    (\<lambda>values. bind_exc (set_list get ''update_list'' ''ANYSDK_CRUD_CONTROLS_UPDATE_LIST''
                 ANYSDK_CRUD_CONTROLS_UPDATE_LIST values)
    (\<lambda>values. bind_exc (set_gate get ''delete'' ''ANYSDK_CRUD_CONTROLS_DELETE''
                 ANYSDK_CRUD_CONTROLS_DELETE values)
    (\<lambda>values. set_list get ''delete_list'' ''ANYSDK_CRUD_CONTROLS_DELETE_LIST''
                 ANYSDK_CRUD_CONTROLS_DELETE_LIST values)))))))"

text \<open>
  A \<^verbatim>\<open>CrudControls\<close> object as \<^verbatim>\<open>_build_operations\<close> reads it: four gates and four keyword
  lists; a keyword list may be \<^verbatim>\<open>None\<close> (the source tests \<^verbatim>\<open>is not None\<close>).
\<close>

record CrudControls =
  create :: bool
  create_list :: "string list option"
  read :: bool
  read_list :: "string list option"
  update :: bool
  update_list :: "string list option"
  delete :: bool
  delete_list :: "string list option"

text \<open>The attributes of the object, read from the validated dictionary: a gate is the
  truth value of its entry; a keyword list is its entry when that is a list of strings.\<close>

fun the_strs :: "pyval list \<Rightarrow> string list option" where
  "the_strs [] = Some []"
| "the_strs (PyStr s # vs) = map_option (\<lambda>ws. s # ws) (the_strs vs)"
| "the_strs (v # vs) = None"

definition gate_of :: "pydict \<Rightarrow> string \<Rightarrow> bool" where
  "gate_of values key = (case values key of Some v \<Rightarrow> truthy v | None \<Rightarrow> False)"

definition list_of :: "pydict \<Rightarrow> string \<Rightarrow> string list option" where
  "list_of values key = (case values key of Some (PyList vs) \<Rightarrow> the_strs vs | _ \<Rightarrow> None)"

definition CrudControls_of :: "pydict \<Rightarrow> CrudControls" where
  "CrudControls_of values =
     \<lparr> create = gate_of values ''create'', create_list = list_of values ''create_list'',
       read = gate_of values ''read'', read_list = list_of values ''read_list'',
       update = gate_of values ''update'', update_list = list_of values ''update_list'',
       delete = gate_of values ''delete'', delete_list = list_of values ''delete_list'' \<rparr>"

text \<open>
  The class is a pydantic (version 1) model. Its constructor first validates each keyword
  argument against the declared type of its field, and all eight fields are declared
  \<^verbatim>\<open>Optional[str]\<close>: \<^verbatim>\<open>None\<close> and a \<^verbatim>\<open>str\<close> pass unchanged, a number (a \<^verbatim>\<open>bool\<close> is one)
  is replaced by its text \<^verbatim>\<open>str(v)\<close>, and every other object, a list for instance, is a
  validation error. \<^verbatim>\<open>str\<close> of an integer of more than 4300 digits raises \<^verbatim>\<open>ValueError\<close>
  (the conversion limit of Python 3.11), which is a validation error too.
\<close>

definition digit_char :: "nat \<Rightarrow> char" where
  "digit_char d = char_of (48 + d)"

fun str_nat :: "nat \<Rightarrow> string" where
  "str_nat n = (if n < 10 then [digit_char n] else str_nat (n div 10) @ [digit_char (n mod 10)])"

declare str_nat.simps [simp del]

definition str_int :: "int \<Rightarrow> exc + string" where
  "str_int i =
     (let ds = str_nat (nat \<bar>i\<bar>)
      in if 4300 < length ds then Inl ValueError
         else Inr (if i < 0 then CHR ''-'' # ds else ds))"

fun str_field :: "pyval \<Rightarrow> exc + pyval" where
  "str_field PyNone = Inr PyNone"
| "str_field (PyStr s) = Inr (PyStr s)"
| "str_field (PyBool b) = Inr (PyStr (if b then ''True'' else ''False''))"
| "str_field (PyInt i) =
     (case str_int i of Inl e \<Rightarrow> Inl ValidationError | Inr s \<Rightarrow> Inr (PyStr s))"
| "str_field (PyList xs) = Inl ValidationError"
| "str_field (PyDict kvs) = Inl ValidationError"

text \<open>
  The field declarations of the class (lines 25 to 32), in their order, with the defaults
  that stand in for the arguments not supplied; defaults are not validated.
\<close>

definition field_names :: "string list" where
  "field_names =
     [''create'', ''create_list'', ''read'', ''read_list'',
      ''update'', ''update_list'', ''delete'', ''delete_list'']"

definition field_defaults :: pydict where
  "field_defaults =
     [''create'' \<mapsto> PyBool ANYSDK_CRUD_CONTROLS_CREATE, ''create_list'' \<mapsto> PyNone,
      ''read'' \<mapsto> PyBool ANYSDK_CRUD_CONTROLS_READ, ''read_list'' \<mapsto> PyNone,
      ''update'' \<mapsto> PyBool ANYSDK_CRUD_CONTROLS_UPDATE, ''update_list'' \<mapsto> PyNone,
      ''delete'' \<mapsto> PyBool ANYSDK_CRUD_CONTROLS_DELETE, ''delete_list'' \<mapsto> PyNone]"

text \<open>
  Field validation of the keyword arguments \<open>kwargs\<close>: whether every supplied field passes,
  and the \<^verbatim>\<open>values\<close> dictionary handed to the root validator, which holds the validated
  value of a supplied field, the default of a field not supplied, and no entry for a field
  that failed or for a name that is not a field (the class keeps pydantic's default of
  ignoring extra arguments).
\<close>

definition fields_valid :: "pydict \<Rightarrow> bool" where
  "fields_valid kwargs =
     list_all (\<lambda>k. case kwargs k of
                     None \<Rightarrow> True
                   | Some v \<Rightarrow> (case str_field v of Inl e \<Rightarrow> False | Inr w \<Rightarrow> True))
       field_names"

definition field_values :: "pydict \<Rightarrow> pydict" where
  "field_values kwargs =
     (\<lambda>k. if k \<in> set field_names
          then (case kwargs k of
                  None \<Rightarrow> field_defaults k
                | Some v \<Rightarrow> (case str_field v of Inl e \<Rightarrow> None | Inr w \<Rightarrow> Some w))
          else None)"

text \<open>
  The constructor \<^verbatim>\<open>CrudControls(**kwargs)\<close>. \<^verbatim>\<open>validate_environment\<close> is declared with a
  plain \<^verbatim>\<open>@root_validator\<close>: it runs after the field validation, also when a field has
  failed. pydantic turns a \<^verbatim>\<open>ValueError\<close>, \<^verbatim>\<open>TypeError\<close> or \<^verbatim>\<open>AssertionError\<close> of the validator
  into a validation error; any other exception leaves the constructor at once. With a
  failed field the constructor raises \<^verbatim>\<open>ValidationError\<close>; otherwise the dictionary that
  the validator returns becomes the attributes of the object.
\<close>

definition CrudControls_init :: "lookup \<Rightarrow> pydict \<Rightarrow> exc + CrudControls" where
  "CrudControls_init get kwargs =
     (case validate_environment get (field_values kwargs) of
        Inl e \<Rightarrow>
          if e = ValueError \<or> e = JSONDecodeError \<or> e = TypeError \<or> e = AssertionError
          then Inl ValidationError else Inl e
      | Inr v \<Rightarrow>
          if fields_valid kwargs then Inr (CrudControls_of v) else Inl ValidationError)"

section \<open>The client and its tools\<close>

text \<open>
  The SDK client is an arbitrary object that the module inspects with \<^verbatim>\<open>dir\<close>,
  \<^verbatim>\<open>getattr\<close>, \<^verbatim>\<open>callable\<close> and \<^verbatim>\<open>__doc__\<close>. It is modelled by its attributes in the
  order in which \<^verbatim>\<open>dir\<close> lists them. An attribute is either callable, with its behaviour
  when called with keyword arguments (a result, or the exception it raises) and its
  \<^verbatim>\<open>__doc__\<close> (\<^verbatim>\<open>None\<close> when it has no documentation string), or a plain value.
\<close>

type_synonym kwargs = "(string \<times> pyval) list"

datatype attr =
    Callable "kwargs \<Rightarrow> exc + pyval" "string option"
  | Plain pyval

type_synonym sdk = "(string \<times> attr) list"

text \<open>\<^verbatim>\<open>self.client\<close> is a mapping whose entry \<^verbatim>\<open>"client"\<close> holds the SDK object.\<close>

type_synonym handle = "string \<rightharpoonup> sdk"

definition dir_names :: "sdk \<Rightarrow> string list" where
  "dir_names c = map fst c"

definition getattr :: "sdk \<Rightarrow> string \<Rightarrow> exc + attr" where
  "getattr c n = (case map_of c n of None \<Rightarrow> Inl AttributeError | Some a \<Rightarrow> Inr a)"

fun callable :: "attr \<Rightarrow> bool" where
  "callable (Callable f d) = True"
| "callable (Plain v) = False"

fun doc_of :: "attr \<Rightarrow> string option" where
  "doc_of (Callable f d) = d"
| "doc_of (Plain v) = None"

text \<open>\<^verbatim>\<open>self.client["client"]\<close>.\<close>

definition the_client :: "handle \<Rightarrow> exc + sdk" where
  "the_client h = (case h ''client'' of None \<Rightarrow> Inl KeyError | Some c \<Rightarrow> Inr c)"

text \<open>
  \<^verbatim>\<open>class AnySDKTool(BaseTool)\<close> with the fields \<^verbatim>\<open>client: Any\<close>, \<^verbatim>\<open>name: str\<close> and
  \<^verbatim>\<open>description: str\<close>. The class is a pydantic model: its constructor validates the
  keyword arguments against the declared field types, and \<^verbatim>\<open>description: str\<close> does not
  admit \<^verbatim>\<open>None\<close>.
\<close>

record AnySDKTool =
  client :: handle
  name :: string
  description :: string

definition new_AnySDKTool :: "handle \<Rightarrow> string \<Rightarrow> string option \<Rightarrow> exc + AnySDKTool" where
  "new_AnySDKTool h n d =
     (case d of
        None \<Rightarrow> Inl ValidationError
      | Some s \<Rightarrow> Inr \<lparr> client = h, name = n, description = s \<rparr>)"

subsection \<open>Invoking a tool\<close>

text \<open>
  \<^verbatim>\<open>func(**params)\<close>: the object called must be callable, \<^verbatim>\<open>params\<close> must be a mapping and
  its keys must be strings; Python raises \<^verbatim>\<open>TypeError\<close> otherwise.
\<close>

fun str_keys :: "(pyval \<times> pyval) list \<Rightarrow> kwargs option" where
  "str_keys [] = Some []"
| "str_keys ((PyStr k, v) # kvs) = map_option (\<lambda>r. (k, v) # r) (str_keys kvs)"
| "str_keys (kv # kvs) = None"

fun call_kwargs :: "attr \<Rightarrow> pyval \<Rightarrow> exc + pyval" where
  "call_kwargs (Callable f d) (PyDict kvs) =
     (case str_keys kvs of None \<Rightarrow> Inl TypeError | Some kw \<Rightarrow> f kw)"
| "call_kwargs a v = Inl TypeError"

text \<open>
  The first statement of \<^verbatim>\<open>_run\<close> (lines 116 to 124): the keyword arguments from the tool
  input. \<^verbatim>\<open>json.loads\<close> belongs to Python's standard library and is a parameter: it returns
  the decoded value or raises. The inner handler catches \<^verbatim>\<open>JSONDecodeError\<close> only; the
  library also raises other exceptions on some texts (\<^verbatim>\<open>RecursionError\<close> on deep nesting,
  \<^verbatim>\<open>ValueError\<close> on an integer literal beyond the digit limit), and those leave the
  statement.
\<close>

fun resolve_params :: "(string \<Rightarrow> exc + pyval) \<Rightarrow> pyval \<Rightarrow> exc + pyval" where
  "resolve_params loads (PyDict kvs) = Inr (PyDict kvs)"
| "resolve_params loads (PyStr s) =
     (case loads s of
        Inr v \<Rightarrow> Inr v
      | Inl JSONDecodeError \<Rightarrow> Inr (PyDict [])
      | Inl e \<Rightarrow> Inl e)"
| "resolve_params loads v = Inr (PyDict [])"

text \<open>
  The body of the \<^verbatim>\<open>try\<close> block of \<^verbatim>\<open>_run\<close> (lines 116 to 128). \<^verbatim>\<open>json.dumps\<close> with
  \<^verbatim>\<open>default=str\<close> is a parameter too: it returns the text or raises.
\<close>

definition run_body ::
  "(string \<Rightarrow> exc + pyval) \<Rightarrow> (pyval \<Rightarrow> exc + string) \<Rightarrow> AnySDKTool \<Rightarrow> pyval \<Rightarrow> exc + string" where
  "run_body loads dumps self tool_input =
     bind_exc (resolve_params loads tool_input)
       (\<lambda>params. bind_exc (the_client (client self))
       (\<lambda>c. bind_exc (getattr c (name self))
       (\<lambda>func. bind_exc (call_kwargs func params)
       (\<lambda>result. dumps result))))"

text \<open>\<^verbatim>\<open>AnySDKTool._run\<close>: the body, under \<^verbatim>\<open>except AttributeError\<close>.\<close>

definition run ::
  "(string \<Rightarrow> exc + pyval) \<Rightarrow> (pyval \<Rightarrow> exc + string) \<Rightarrow> AnySDKTool \<Rightarrow> pyval \<Rightarrow> exc + string" where
  "run loads dumps self tool_input =
     (case run_body loads dumps self tool_input of
        Inl AttributeError \<Rightarrow> Inr (''Invalid function name: '' @ name self)
      | Inl e \<Rightarrow> Inl e
      | Inr s \<Rightarrow> Inr s)"

subsection \<open>Building the list of operations\<close>

text \<open>The list comprehension of \<^verbatim>\<open>_build_operations\<close> (lines 158 to 165): the names of
  \<^verbatim>\<open>dir\<close> whose attribute is callable and which do not start with an underscore.\<close>

fun select_functions :: "sdk \<Rightarrow> string list \<Rightarrow> exc + string list" where
  "select_functions c [] = Inr []"
| "select_functions c (func # rest) =
     bind_exc (getattr c func)
       (\<lambda>a. bind_exc (select_functions c rest)
          (\<lambda>fs. Inr (if callable a \<and> \<not> startswith func ''_'' then func # fs else fs)))"

definition sdk_functions :: "sdk \<Rightarrow> exc + string list" where
  "sdk_functions c = select_functions c (dir_names c)"

text \<open>
  One of the four tests of the loop body, for instance
  \<^verbatim>\<open>self.crud_controls.create_list is not None and any(word.lower() in func_name.lower()
  for word in self.crud_controls.create_list)\<close> under \<^verbatim>\<open>if self.crud_controls.create\<close>.
\<close>

definition any_word_in :: "string list \<Rightarrow> string \<Rightarrow> bool" where
  "any_word_in ws func_name = list_ex (\<lambda>word. str_in (lower word) (lower func_name)) ws"

definition category_matches :: "bool \<Rightarrow> string list option \<Rightarrow> string \<Rightarrow> bool" where
  "category_matches enabled keywords func_name =
     (if enabled
      then (case keywords of None \<Rightarrow> False | Some ws \<Rightarrow> any_word_in ws func_name)
      else False)"

text \<open>The appends of one loop iteration (lines 172 to 199), in the order create, read,
  update, delete; nothing is appended when \<^verbatim>\<open>crud_controls\<close> is \<^verbatim>\<open>None\<close>.\<close>

definition appended :: "CrudControls option \<Rightarrow> AnySDKTool \<Rightarrow> AnySDKTool list" where
  "appended crud_controls operation =
     (case crud_controls of
        None \<Rightarrow> []
      | Some cc \<Rightarrow>
          (if category_matches (create cc) (create_list cc) (name operation)
           then [operation] else [])
          @ (if category_matches (read cc) (read_list cc) (name operation)
             then [operation] else [])
          @ (if category_matches (update cc) (update_list cc) (name operation)
             then [operation] else [])
          @ (if category_matches (delete cc) (delete_list cc) (name operation)
             then [operation] else []))"

text \<open>The \<^verbatim>\<open>for\<close> loop (lines 167 to 199), with the list \<^verbatim>\<open>operations\<close> built so far.\<close>

fun build_loop ::
  "handle \<Rightarrow> sdk \<Rightarrow> CrudControls option \<Rightarrow> string list \<Rightarrow> AnySDKTool list
     \<Rightarrow> exc + AnySDKTool list" where
  "build_loop h c crud_controls [] operations = Inr operations"
| "build_loop h c crud_controls (func_name # rest) operations =
     bind_exc (getattr c func_name)
       (\<lambda>func. bind_exc (new_AnySDKTool h func_name (doc_of func))
          (\<lambda>operation.
             build_loop h c crud_controls rest (operations @ appended crud_controls operation)))"

text \<open>\<^verbatim>\<open>AnySdkWrapper._build_operations\<close>, whose result \<^verbatim>\<open>__init__\<close> stores in
  \<^verbatim>\<open>self.operations\<close> and \<^verbatim>\<open>get_tools\<close> returns.\<close>

definition build_operations :: "handle \<Rightarrow> CrudControls option \<Rightarrow> exc + AnySDKTool list" where
  "build_operations h crud_controls =
     bind_exc (the_client h)
       (\<lambda>c. bind_exc (sdk_functions c)
          (\<lambda>fs. build_loop h c crud_controls fs []))"

section \<open>Notions used in the statements\<close>

text \<open>
  The names that \<^verbatim>\<open>_build_operations\<close> wraps: those whose attribute is callable and which do
  not start with an underscore; the documentation string found under a name; a client all
  of whose public callables have a documentation string; and the tool that the loop builds
  for a name of such a client.
\<close>

definition public_callable :: "sdk \<Rightarrow> string \<Rightarrow> bool" where
  "public_callable c n =
     ((case map_of c n of Some a \<Rightarrow> callable a | None \<Rightarrow> False) \<and> \<not> startswith n ''_'')"

definition doc_at :: "sdk \<Rightarrow> string \<Rightarrow> string option" where
  "doc_at c n = (case map_of c n of Some a \<Rightarrow> doc_of a | None \<Rightarrow> None)"

definition documented :: "sdk \<Rightarrow> bool" where
  "documented c = list_all (\<lambda>n. doc_at c n \<noteq> None) (filter (public_callable c) (dir_names c))"

definition tool_for :: "handle \<Rightarrow> sdk \<Rightarrow> string \<Rightarrow> AnySDKTool" where
  "tool_for h c n =
     \<lparr> client = h, name = n, description = (case doc_at c n of Some d \<Rightarrow> d | None \<Rightarrow> []) \<rparr>"

definition wrapped :: "handle \<Rightarrow> sdk \<Rightarrow> AnySDKTool list" where
  "wrapped h c = map (tool_for h c) (filter (public_callable c) (dir_names c))"

text \<open>The number of category tests that a name passes, and whether it passes one at all.\<close>

definition match_count :: "CrudControls \<Rightarrow> string \<Rightarrow> nat" where
  "match_count cc m =
     (if category_matches (create cc) (create_list cc) m then 1 else 0)
     + (if category_matches (read cc) (read_list cc) m then 1 else 0)
     + (if category_matches (update cc) (update_list cc) m then 1 else 0)
     + (if category_matches (delete cc) (delete_list cc) m then 1 else 0)"

definition qualifies :: "CrudControls option \<Rightarrow> string \<Rightarrow> bool" where
  "qualifies crud_controls m =
     (case crud_controls of None \<Rightarrow> False | Some cc \<Rightarrow> 0 < match_count cc m)"


fun is_str :: "pyval \<Rightarrow> bool" where
  "is_str (PyStr s) = True"
| "is_str v = False"




section \<open>Examples\<close>

text \<open>The client of the examples: the methods \<^verbatim>\<open>_internal\<close>, \<^verbatim>\<open>create_widget\<close> and
  \<^verbatim>\<open>get_widget\<close>, in the (sorted) order of \<^verbatim>\<open>dir\<close>, with their behaviours and documentation
  strings.\<close>

definition widget_client ::
  "(kwargs \<Rightarrow> exc + pyval) \<Rightarrow> string option \<Rightarrow> (kwargs \<Rightarrow> exc + pyval) \<Rightarrow> string option
     \<Rightarrow> (kwargs \<Rightarrow> exc + pyval) \<Rightarrow> string option \<Rightarrow> sdk" where
  "widget_client f0 d0 f1 d1 f2 d2 =
     [(''_internal'', Callable f0 d0),
      (''create_widget'', Callable f1 d1),
      (''get_widget'', Callable f2 d2)]"

definition widgets :: sdk where
  "widgets =
     widget_client (\<lambda>kw. Inr PyNone) None
       (\<lambda>kw. Inr (PyBool True)) (Some ''Create a widget.'')
       (\<lambda>kw. Inr PyNone) (Some ''Get a widget.'')"

text \<open>
  Stand-ins for \<^verbatim>\<open>json.loads\<close> and \<^verbatim>\<open>json.dumps\<close> in the examples. They agree with the
  library on the texts and values that the examples use: \<^verbatim>\<open>{}\<close>, \<^verbatim>\<open>null\<close> and \<^verbatim>\<open>5\<close> are
  decoded; \<^verbatim>\<open>not valid json\<close> is no JSON text (\<^verbatim>\<open>JSONDecodeError\<close>); a run of more than 4300
  digits \<^verbatim>\<open>1\<close> raises \<^verbatim>\<open>ValueError\<close> (the integer conversion limit of Python 3.11) and a run of
  100000 or more opening brackets raises \<^verbatim>\<open>RecursionError\<close>; the values \<^verbatim>\<open>None\<close>, \<^verbatim>\<open>True\<close>,
  \<^verbatim>\<open>False\<close>, \<^verbatim>\<open>[]\<close> and \<^verbatim>\<open>{}\<close> are encoded as the library encodes them. The theorems hold for
  every decoder and encoder.
\<close>

definition loads_sample :: "string \<Rightarrow> exc + pyval" where
  "loads_sample s =
     (if 4300 < length s \<and> list_all (\<lambda>c. c = CHR ''1'') s then Inl ValueError
      else if 100000 \<le> length s \<and> list_all (\<lambda>c. c = CHR ''['') s then Inl RecursionError
      else if s = ''{}'' then Inr (PyDict [])
      else if s = ''null'' then Inr PyNone
      else if s = ''5'' then Inr (PyInt 5)
      else Inl JSONDecodeError)"

fun dumps_sample :: "pyval \<Rightarrow> exc + string" where
  "dumps_sample PyNone = Inr ''null''"
| "dumps_sample (PyBool b) = Inr (if b then ''true'' else ''false'')"
| "dumps_sample (PyList []) = Inr ''[]''"
| "dumps_sample (PyDict []) = Inr ''{}''"
| "dumps_sample v = Inl (OtherError ''outside the sample'')"

text \<open>The controls that the constructor yields from the field defaults when no environment
  variable is set (lemma \<open>CrudControls_init_defaults\<close> below).\<close>

definition default_controls :: CrudControls where
  "default_controls =
     \<lparr> create = False, create_list = Some [''create''],
       read = True, read_list = Some [''get'', ''read'', ''list''],
       update = False, update_list = Some [''update'', ''put'', ''post''],
       delete = False, delete_list = Some [''delete'', ''destroy'', ''remove''] \<rparr>"

text \<open>Further clients: one method whose name holds a create and a read keyword, one
  method with an empty documentation string, one method without documentation string.\<close>

definition registry_client :: sdk where
  "registry_client = [(''get_or_create'', Callable (\<lambda>kw. Inr PyNone) (Some ''Get or create.''))]"

definition bare_client :: sdk where
  "bare_client = [(''list_items'', Callable (\<lambda>kw. Inr (PyList [])) (Some ''''))]"

definition undocumented_client :: sdk where
  "undocumented_client = [(''get_widget'', Callable (\<lambda>kw. Inr PyNone) None)]"

text \<open>The controls with the create gate enabled as well (lemma
  \<open>CrudControls_init_create\<close> below), and a client whose method raises
  \<^verbatim>\<open>AttributeError\<close> from inside.\<close>

definition create_read_controls :: CrudControls where
  "create_read_controls =
     \<lparr> create = True, create_list = Some [''create''],
       read = True, read_list = Some [''get'', ''read'', ''list''],
       update = False, update_list = Some [''update'', ''put'', ''post''],
       delete = False, delete_list = Some [''delete'', ''destroy'', ''remove''] \<rparr>"

definition faulty_client :: sdk where
  "faulty_client = [(''get_widget'', Callable (\<lambda>kw. Inl AttributeError) (Some ''Get a widget.''))]"

text \<open>A client with a documented \<^verbatim>\<open>get_widget\<close> and an undocumented \<^verbatim>\<open>ping\<close>, and a client
  whose method \<^verbatim>\<open>get_item\<close> returns its argument \<^verbatim>\<open>id\<close> (\<^verbatim>\<open>None\<close> when it is not given).\<close>

definition mixed_client :: sdk where
  "mixed_client =
     [(''get_widget'', Callable (\<lambda>kw. Inr PyNone) (Some ''Get a widget.'')),
      (''ping'', Callable (\<lambda>kw. Inr (PyBool True)) None)]"

definition echo_client :: sdk where
  "echo_client =
     [(''get_item'',
       Callable (\<lambda>kw. case map_of kw ''id'' of None \<Rightarrow> Inr PyNone | Some v \<Rightarrow> Inr v)
         (Some ''Get an item.''))]"

section \<open>Strings\<close>

lemma startswith_iff: "startswith s p \<longleftrightarrow> (\<exists>t. s = p @ t)"
  by (induction s p rule: startswith.induct) auto

lemma str_in_iff: "str_in w s \<longleftrightarrow> (\<exists>p t. s = p @ w @ t)"
proof (induction s)
  case Nil
  then show ?case by auto
next
  case (Cons c cs)
  show ?case
  proof
    assume "str_in w (c # cs)"
    then consider "startswith (c # cs) w" | "str_in w cs" by auto
    then show "\<exists>p t. c # cs = p @ w @ t"
    proof cases
      case 1
      then obtain t where "c # cs = w @ t" by (auto simp: startswith_iff)
      then have "c # cs = [] @ w @ t" by simp
      then show ?thesis by blast
    next
      case 2
      then obtain p t where "cs = p @ w @ t" using Cons.IH by blast
      then have "c # cs = (c # p) @ w @ t" by simp
      then show ?thesis by blast
    qed
  next
    assume "\<exists>p t. c # cs = p @ w @ t"
    then obtain p t where eq: "c # cs = p @ w @ t" by blast
    show "str_in w (c # cs)"
    proof (cases p)
      case Nil
      with eq have "startswith (c # cs) w" by (auto simp: startswith_iff)
      then show ?thesis by simp
    next
      case (Cons a p')
      with eq have "cs = p' @ w @ t" by simp
      then have "str_in w cs" using Cons.IH by blast
      then show ?thesis by simp
    qed
  qed
qed

lemma split_comma_not_Nil: "split_comma s \<noteq> []"
  by (induction s) (auto split: list.splits)

lemma split_comma_no_comma: "w \<in> set (split_comma s) \<Longrightarrow> CHR '','' \<notin> set w"
  by (induction s arbitrary: w) (auto split: list.splits if_splits)

lemma length_split_comma: "length (split_comma s) = Suc (length (filter (\<lambda>c. c = CHR '','') s))"
  by (induction s) (auto split: list.splits simp: split_comma_not_Nil)

section \<open>The operations list as one expression\<close>

lemma select_functions_eq:
  "set ns \<subseteq> fst ` set c \<Longrightarrow> select_functions c ns = Inr (filter (public_callable c) ns)"
proof (induction ns)
  case Nil
  then show ?case by simp
next
  case (Cons n ns)
  then obtain a where a: "map_of c n = Some a"
    by (metis list.set_intros(1) map_of_eq_None_iff not_Some_eq subsetD)
  from Cons have "select_functions c ns = Inr (filter (public_callable c) ns)" by simp
  moreover from a have "public_callable c n = (callable a \<and> \<not> startswith n ''_'')"
    by (simp add: public_callable_def)
  ultimately show ?case using a
    by (simp add: getattr_def bind_exc_def)
qed

lemma sdk_functions_eq: "sdk_functions c = Inr (filter (public_callable c) (dir_names c))"
  unfolding sdk_functions_def by (rule select_functions_eq) (simp add: dir_names_def)

lemma build_loop_eq:
  "list_all (public_callable c) ns \<Longrightarrow> list_all (\<lambda>n. doc_at c n \<noteq> None) ns \<Longrightarrow>
   build_loop h c cc ns acc = Inr (acc @ concat (map (\<lambda>n. appended cc (tool_for h c n)) ns))"
proof (induction ns arbitrary: acc)
  case Nil
  then show ?case by simp
next
  case (Cons n ns)
  from Cons.prems obtain a where a: "map_of c n = Some a"
    by (auto simp: public_callable_def split: option.splits)
  from Cons.prems a obtain d where d: "doc_of a = Some d"
    by (auto simp: doc_at_def)
  have t: "new_AnySDKTool h n (doc_of a) = Inr (tool_for h c n)"
    by (simp add: new_AnySDKTool_def tool_for_def doc_at_def a d)
  from Cons.prems have "build_loop h c cc ns (acc @ appended cc (tool_for h c n))
      = Inr ((acc @ appended cc (tool_for h c n)) @ concat (map (\<lambda>n. appended cc (tool_for h c n)) ns))"
    by (intro Cons.IH) simp_all
  then show ?case
    by (simp add: getattr_def bind_exc_def a t)
qed

lemma build_operations_eq:
  assumes "h ''client'' = Some c" and "documented c"
  shows "build_operations h cc = Inr (concat (map (appended cc) (wrapped h c)))"
proof -
  have "build_loop h c cc (filter (public_callable c) (dir_names c)) []
     = Inr ([] @ concat (map (\<lambda>n. appended cc (tool_for h c n)) (filter (public_callable c) (dir_names c))))"
    using assms(2) by (intro build_loop_eq) (simp_all add: documented_def list_all_iff)
  then show ?thesis
    using assms(1)
    by (simp add: build_operations_def the_client_def bind_exc_def sdk_functions_eq wrapped_def
        comp_def)
qed

lemma build_loop_undocumented:
  "map_of c n = Some a \<Longrightarrow> doc_of a = None \<Longrightarrow> n \<in> set ns \<Longrightarrow>
   list_all (public_callable c) ns \<Longrightarrow> build_loop h c cc ns acc = Inl ValidationError"
proof (induction ns arbitrary: acc)
  case Nil
  then show ?case by simp
next
  case (Cons m ns)
  from Cons.prems obtain b where b: "map_of c m = Some b"
    by (auto simp: public_callable_def split: option.splits)
  show ?case
  proof (cases "doc_of b")
    case None
    then show ?thesis by (simp add: getattr_def bind_exc_def b new_AnySDKTool_def)
  next
    case (Some d)
    with Cons.prems b have "n \<in> set ns" by auto
    with Cons have "\<And>acc. build_loop h c cc ns acc = Inl ValidationError" by simp
    then show ?thesis by (simp add: getattr_def bind_exc_def b new_AnySDKTool_def Some)
  qed
qed

lemma build_operations_undocumented:
  assumes "h ''client'' = Some c" and "\<not> documented c"
  shows "build_operations h cc = Inl ValidationError"
proof -
  let ?ns = "filter (public_callable c) (dir_names c)"
  from assms(2) obtain n where n: "n \<in> set ?ns" and d: "doc_at c n = None"
    by (auto simp: documented_def list_all_iff)
  from n have "public_callable c n" by simp
  then obtain a where a: "map_of c n = Some a"
    by (auto simp: public_callable_def split: option.splits)
  with d have "doc_of a = None" by (simp add: doc_at_def)
  with a n have "build_loop h c cc ?ns [] = Inl ValidationError"
    by (intro build_loop_undocumented [of c n a]) (simp_all add: list_all_iff)
  then show ?thesis
    using assms(1)
    by (simp add: build_operations_def the_client_def bind_exc_def sdk_functions_eq)
qed

lemma build_operations_Inr_documented:
  assumes "h ''client'' = Some c" and "build_operations h cc = Inr ops"
  shows "documented c"
proof (rule ccontr)
  assume "\<not> documented c"
  with assms(1) have "build_operations h cc = Inl ValidationError"
    by (rule build_operations_undocumented)
  with assms(2) show False by simp
qed

lemma any_word_in_iff:
  "any_word_in ws m \<longleftrightarrow> (\<exists>w\<in>set ws. \<exists>p t. lower m = p @ lower w @ t)"
  by (simp add: any_word_in_def list_ex_iff str_in_iff)

lemma category_matches_iff:
  "category_matches enabled kws m \<longleftrightarrow>
     enabled \<and> (\<exists>ws. kws = Some ws \<and> (\<exists>w\<in>set ws. \<exists>p t. lower m = p @ lower w @ t))"
  by (cases kws) (simp_all add: category_matches_def any_word_in_iff)

lemma appended_Some:
  "appended (Some cc) operation = replicate (match_count cc (name operation)) operation"
  by (simp add: appended_def match_count_def)

lemma appended_None: "appended None operation = []"
  by (simp add: appended_def)

lemma appended_qualifies: "appended cc operation = [] \<longleftrightarrow> \<not> qualifies cc (name operation)"
  by (cases cc) (simp_all add: appended_None appended_Some qualifies_def)

lemma operation_in_appended: "qualifies cc (name operation) \<Longrightarrow> operation \<in> set (appended cc operation)"
  by (cases cc) (auto simp: appended_Some qualifies_def)

lemma name_tool_for: "name (tool_for h c n) = n"
  by (simp add: tool_for_def)

lemma build_operations_Some:
  assumes "h ''client'' = Some c" and "documented c"
  shows "build_operations h (Some cc) =
     Inr (concat (map (\<lambda>operation. replicate (match_count cc (name operation)) operation)
                    (wrapped h c)))"
proof -
  have "appended (Some cc) = (\<lambda>operation. replicate (match_count cc (name operation)) operation)"
    by (rule ext) (rule appended_Some)
  then show ?thesis
    using build_operations_eq [of h c "Some cc"] assms by simp
qed

lemma names_of_operations:
  "name ` set (concat (map (\<lambda>operation. replicate (match_count cc (name operation)) operation)
                         (wrapped h c)))
   = {m \<in> set (dir_names c). public_callable c m \<and> 0 < match_count cc m}"
  by (auto simp: wrapped_def name_tool_for image_iff)

lemma match_count_pos:
  "0 < match_count cc m \<longleftrightarrow>
     category_matches (create cc) (create_list cc) m
     \<or> category_matches (read cc) (read_list cc) m
     \<or> category_matches (update cc) (update_list cc) m
     \<or> category_matches (delete cc) (delete_list cc) m"
  by (simp add: match_count_def)

lemma count_list_replicate: "count_list (replicate k x) y = (if x = y then k else 0)"
  by (induction k) auto

lemma count_list_append': "count_list (xs @ ys) y = count_list xs y + count_list ys y"
  by (induction xs) auto

lemma count_list_names:
  "count_list (concat (map (\<lambda>m. replicate (k m) m) ns)) n = count_list ns n * k n"
  by (induction ns) (auto simp: count_list_append' count_list_replicate)

lemma names_of_replicated:
  "map name (concat (map (\<lambda>operation. replicate (k (name operation)) operation)
                       (map (tool_for h c) ns)))
   = concat (map (\<lambda>m. replicate (k m) m) ns)"
  by (induction ns) (simp_all add: name_tool_for)

section \<open>The validator\<close>


















lemma set_list_not_str:
  assumes "get vals key ek (PyStr d) = Inr x" and "\<not> is_str x"
  shows "set_list get key ek d vals = Inl AttributeError"
  using assms by (cases x) (simp_all add: set_list_def bind_exc_def)

lemma split_fetch_list: "split_comma ''fetch,list'' = [''fetch'', ''list'']"
  by simp

section \<open>Invoking a tool\<close>

lemma run_resolved:
  assumes "client self ''client'' = Some c" and "map_of c (name self) = Some a"
  shows "run loads dumps self tool_input =
     (case bind_exc (resolve_params loads tool_input)
             (\<lambda>params. bind_exc (call_kwargs a params) dumps) of
        Inl AttributeError \<Rightarrow> Inr (''Invalid function name: '' @ name self)
      | Inl e \<Rightarrow> Inl e
      | Inr s \<Rightarrow> Inr s)"
  using assms
  by (cases "resolve_params loads tool_input")
     (simp_all add: run_def run_body_def the_client_def getattr_def bind_exc_def)

lemma run_unresolved:
  assumes "client self ''client'' = Some c" and "map_of c (name self) = None"
  shows "run loads dumps self tool_input =
     (case resolve_params loads tool_input of
        Inl e \<Rightarrow> if e = AttributeError then Inr (''Invalid function name: '' @ name self)
                 else Inl e
      | Inr params \<Rightarrow> Inr (''Invalid function name: '' @ name self))"
proof (cases "resolve_params loads tool_input")
  case (Inl e)
  then show ?thesis
    by (cases e) (simp_all add: run_def run_body_def bind_exc_def)
next
  case (Inr params)
  with assms show ?thesis
    by (simp add: run_def run_body_def the_client_def getattr_def bind_exc_def)
qed

lemma run_propagates_other:
  assumes "client self ''client'' = Some c" and "map_of c (name self) = Some a"
    and "resolve_params loads tool_input = Inr params"
    and "call_kwargs a params = Inl e" and "e \<noteq> AttributeError"
  shows "run loads dumps self tool_input = Inl e"
  using assms(3,4,5) unfolding run_resolved [OF assms(1,2)]
  by (cases e) (simp_all add: bind_exc_def)

lemma run_shields_inner_AttributeError:
  assumes "client self ''client'' = Some c" and "map_of c (name self) = Some a"
    and "resolve_params loads tool_input = Inr params"
    and "call_kwargs a params = Inl AttributeError"
  shows "run loads dumps self tool_input = Inr (''Invalid function name: '' @ name self)"
  using assms(3,4) unfolding run_resolved [OF assms(1,2)]
  by (simp add: bind_exc_def)

lemma str_keys_of_kwargs: "str_keys (map (\<lambda>(k, v). (PyStr k, v)) kw) = Some kw"
  by (induction kw) auto

lemma str_keys_Some: "str_keys kvs = Some kw \<Longrightarrow> kvs = map (\<lambda>(k, v). (PyStr k, v)) kw"
proof (induction kvs arbitrary: kw rule: str_keys.induct)
  case 1
  then show ?case by simp
next
  case (2 k v kvs)
  then show ?case by (cases "str_keys kvs") auto
qed simp_all

section \<open>The default controls and the example clients\<close>

lemmas constants_defs =
  ANYSDK_CRUD_CONTROLS_CREATE_def ANYSDK_CRUD_CONTROLS_READ_def
  ANYSDK_CRUD_CONTROLS_UPDATE_def ANYSDK_CRUD_CONTROLS_DELETE_def
  ANYSDK_CRUD_CONTROLS_CREATE_LIST_def ANYSDK_CRUD_CONTROLS_READ_LIST_def
  ANYSDK_CRUD_CONTROLS_UPDATE_LIST_def ANYSDK_CRUD_CONTROLS_DELETE_LIST_def

lemma field_values_empty: "field_values Map.empty k = (if k \<in> set field_names then field_defaults k else None)"
  by (simp add: field_values_def)

lemma CrudControls_init_defaults:
  "CrudControls_init (get_from_dict_or_env Map.empty) Map.empty = Inr default_controls"
  by (simp add: CrudControls_init_def fields_valid_def field_names_def field_values_def
      validate_environment_def set_gate_def set_list_def
      get_from_dict_or_env_def bind_exc_def CrudControls_of_def gate_of_def list_of_def
      field_defaults_def default_controls_def constants_defs)

lemma documented_widgets: "documented widgets"
  by (simp add: documented_def widgets_def widget_client_def dir_names_def public_callable_def
      doc_at_def)

lemma public_widgets:
  "filter (public_callable widgets) (dir_names widgets) = [''create_widget'', ''get_widget'']"
  by (simp add: widgets_def widget_client_def dir_names_def public_callable_def)

lemma get_widget_read: "any_word_in (split_comma ANYSDK_CRUD_CONTROLS_READ_LIST) ''get_widget''"
  by code_simp

lemma read_get_widget: "any_word_in [''get'', ''read'', ''list''] ''get_widget''"
  by code_simp

lemma read_create_widget: "any_word_in [''get'', ''read'', ''list''] ''create_widget''"
  by code_simp

lemma default_get_widget: "match_count default_controls ''get_widget'' = 1"
  by (simp add: match_count_def default_controls_def category_matches_def read_get_widget)

lemma default_create_widget: "match_count default_controls ''create_widget'' = 1"
  by (simp add: match_count_def default_controls_def category_matches_def read_create_widget)

lemma documented_widget_client: "documented (widget_client f0 d0 f1 (Some d1) f2 (Some d2))"
  by (simp add: documented_def widget_client_def dir_names_def public_callable_def doc_at_def)

lemma wrapped_widget_client:
  "wrapped h (widget_client f0 d0 f1 (Some d1) f2 (Some d2)) =
     [\<lparr> client = h, name = ''create_widget'', description = d1 \<rparr>,
      \<lparr> client = h, name = ''get_widget'', description = d2 \<rparr>]"
  by (simp add: wrapped_def tool_for_def widget_client_def dir_names_def public_callable_def
      doc_at_def)

lemma build_widgets_default:
  "build_operations [''client'' \<mapsto> widgets] (Some default_controls)
      = Inr [\<lparr> client = [''client'' \<mapsto> widgets], name = ''create_widget'',
               description = ''Create a widget.'' \<rparr>,
             \<lparr> client = [''client'' \<mapsto> widgets], name = ''get_widget'',
               description = ''Get a widget.'' \<rparr>]"
proof -
  have "build_operations [''client'' \<mapsto> widgets] (Some default_controls)
      = Inr (concat (map (\<lambda>operation. replicate (match_count default_controls (name operation)) operation)
                    (wrapped [''client'' \<mapsto> widgets] widgets)))"
    by (rule build_operations_Some) (simp_all add: documented_widgets)
  then show ?thesis
    by (simp add: widgets_def wrapped_widget_client default_get_widget default_create_widget)
qed

lemma list_list_items: "any_word_in [''get'', ''read'', ''list''] ''list_items''"
  by code_simp

lemma qualifies_list_items: "qualifies (Some default_controls) ''list_items''"
  by (simp add: qualifies_def match_count_def default_controls_def category_matches_def
      list_list_items)

lemma create_get_or_create: "any_word_in [''create''] ''get_or_create''"
  by code_simp

lemma read_get_or_create: "any_word_in [''get'', ''read'', ''list''] ''get_or_create''"
  by code_simp

lemma update_get_or_create: "\<not> any_word_in [''update'', ''put'', ''post''] ''get_or_create''"
  by code_simp

lemma delete_get_or_create: "\<not> any_word_in [''delete'', ''destroy'', ''remove''] ''get_or_create''"
  by code_simp

lemma CrudControls_init_create:
  "CrudControls_init (get_from_dict_or_env Map.empty) [''create'' \<mapsto> PyBool True]
     = Inr create_read_controls"
  by (simp add: CrudControls_init_def fields_valid_def field_names_def field_values_def
      validate_environment_def set_gate_def set_list_def
      get_from_dict_or_env_def bind_exc_def CrudControls_of_def gate_of_def list_of_def
      field_defaults_def create_read_controls_def constants_defs)

lemma match_count_get_or_create: "match_count create_read_controls ''get_or_create'' = 2"
  by (simp add: match_count_def create_read_controls_def category_matches_def
      create_get_or_create read_get_or_create)

lemma list_all_replicate: "list_all P (replicate n x) \<longleftrightarrow> n = 0 \<or> P x"
  by (induction n) auto

lemma loads_sample_digits: "loads_sample (replicate 5000 (CHR ''1'')) = Inl ValueError"
  by (simp add: loads_sample_def list_all_replicate)

lemma loads_sample_brackets: "loads_sample (replicate 100000 (CHR ''['')) = Inl RecursionError"
  by (simp add: loads_sample_def list_all_replicate)

lemma loads_sample_invalid: "loads_sample ''not valid json'' = Inl JSONDecodeError"
  by (simp add: loads_sample_def)


lemma build_operations_cases:
  assumes "h ''client'' = Some c"
  shows "(documented c \<longrightarrow>
            (\<exists>ops. build_operations h cc = Inr ops
               \<and> ((\<forall>n\<in>set (dir_names c). public_callable c n \<longrightarrow> \<not> qualifies cc n) \<longrightarrow> ops = [])
               \<and> (\<forall>n\<in>set (dir_names c).
                     public_callable c n \<and> qualifies cc n \<and> doc_at c n = Some [] \<longrightarrow>
                     \<lparr> client = h, name = n, description = [] \<rparr> \<in> set ops)))
       \<and> (\<not> documented c \<longrightarrow> build_operations h cc = Inl ValidationError)"
proof (intro conjI impI)
  assume doc: "documented c"
  let ?ops = "concat (map (appended cc) (wrapped h c))"
  have b: "build_operations h cc = Inr ?ops"
    using build_operations_eq [of h c cc] assms doc by simp
  have e: "(\<forall>n\<in>set (dir_names c). public_callable c n \<longrightarrow> \<not> qualifies cc n) \<longrightarrow> ?ops = []"
    by (auto simp: wrapped_def appended_qualifies name_tool_for)
  have m: "\<forall>n\<in>set (dir_names c).
             public_callable c n \<and> qualifies cc n \<and> doc_at c n = Some [] \<longrightarrow>
             \<lparr> client = h, name = n, description = [] \<rparr> \<in> set ?ops"
  proof (intro ballI impI)
    fix n
    assume n: "n \<in> set (dir_names c)"
      and q: "public_callable c n \<and> qualifies cc n \<and> doc_at c n = Some []"
    then have t: "tool_for h c n = \<lparr> client = h, name = n, description = [] \<rparr>"
      by (simp add: tool_for_def)
    from q have "tool_for h c n \<in> set (appended cc (tool_for h c n))"
      by (intro operation_in_appended) (simp add: name_tool_for)
    moreover from n q have "tool_for h c n \<in> set (wrapped h c)"
      by (simp add: wrapped_def)
    ultimately have "tool_for h c n \<in> set ?ops" by auto
    with t show "\<lparr> client = h, name = n, description = [] \<rparr> \<in> set ?ops" by simp
  qed
  from b e m show "\<exists>ops. build_operations h cc = Inr ops
               \<and> ((\<forall>n\<in>set (dir_names c). public_callable c n \<longrightarrow> \<not> qualifies cc n) \<longrightarrow> ops = [])
               \<and> (\<forall>n\<in>set (dir_names c).
                     public_callable c n \<and> qualifies cc n \<and> doc_at c n = Some [] \<longrightarrow>
                     \<lparr> client = h, name = n, description = [] \<rparr> \<in> set ops)"
    by blast
next
  assume "\<not> documented c"
  with assms show "build_operations h cc = Inl ValidationError"
    by (rule build_operations_undocumented)
qed

section \<open>The constructor of the CRUD controls\<close>

lemma str_field_examples:
  "str_field (PyInt 42) = Inr (PyStr ''42'')"
  "str_field (PyInt (- 7)) = Inr (PyStr ''-7'')"
  "str_field (PyInt 0) = Inr (PyStr ''0'')"
  by code_simp+








lemma create_False_text_enables:
  "map_sum id create (CrudControls_init (get_from_dict_or_env Map.empty) [''create'' \<mapsto> PyBool False])
     = Inr True"
  by (simp add: CrudControls_init_def fields_valid_def field_names_def field_values_def
      validate_environment_def set_gate_def set_list_def
      get_from_dict_or_env_def bind_exc_def CrudControls_of_def gate_of_def list_of_def
      field_defaults_def constants_defs)


section \<open>The claims\<close>

text \<open>
  Claim C1. A category test passes for a method name exactly when the gate of the category
  is enabled and some keyword of its list occurs in the name, both in lower case. In the
  operations list that \<^verbatim>\<open>_build_operations\<close> returns, a name is the name of some operation
  exactly when it is a public callable of the client and at least one of the four category
  tests passes for it.
\<close>

theorem classification_and_retention:
  assumes "h ''client'' = Some c"
  shows "(category_matches enabled kws m \<longleftrightarrow>
            enabled \<and> (\<exists>ws. kws = Some ws
                          \<and> (\<exists>w\<in>set ws. \<exists>p t. lower m = p @ lower w @ t)))
       \<and> (documented c \<longrightarrow> (\<exists>ops. build_operations h (Some cc) = Inr ops))
       \<and> (build_operations h (Some cc) = Inr ops \<longrightarrow>
            (\<forall>n. n \<in> name ` set ops \<longleftrightarrow>
                    n \<in> set (dir_names c) \<and> public_callable c n
                    \<and> (category_matches (create cc) (create_list cc) n
                       \<or> category_matches (read cc) (read_list cc) n
                       \<or> category_matches (update cc) (update_list cc) n
                       \<or> category_matches (delete cc) (delete_list cc) n)))"
proof (intro conjI impI)
  show "category_matches enabled kws m \<longleftrightarrow>
          enabled \<and> (\<exists>ws. kws = Some ws \<and> (\<exists>w\<in>set ws. \<exists>p t. lower m = p @ lower w @ t))"
    by (rule category_matches_iff)
next
  assume "documented c"
  with assms show "\<exists>ops. build_operations h (Some cc) = Inr ops"
    using build_operations_Some by blast
next
  assume b: "build_operations h (Some cc) = Inr ops"
  let ?ops = "concat (map (\<lambda>operation. replicate (match_count cc (name operation)) operation)
                        (wrapped h c))"
  from assms b have "documented c" by (rule build_operations_Inr_documented)
  with assms have "build_operations h (Some cc) = Inr ?ops"
    by (rule build_operations_Some)
  with b have "ops = ?ops" by simp
  then show "\<forall>n. n \<in> name ` set ops \<longleftrightarrow>
                    n \<in> set (dir_names c) \<and> public_callable c n
                    \<and> (category_matches (create cc) (create_list cc) n
                       \<or> category_matches (read cc) (read_list cc) n
                       \<or> category_matches (update cc) (update_list cc) n
                       \<or> category_matches (delete cc) (delete_list cc) n)"
    by (simp only: names_of_operations) (simp add: match_count_pos)
qed

theorem classification_and_retention_witness:
  "[''client'' \<mapsto> widgets] ''client'' = Some widgets \<and> documented widgets
   \<and> category_matches True (Some [''get'', ''read'', ''list'']) ''get_widget''
   \<and> (\<exists>w\<in>set [''get'', ''read'', ''list'']. \<exists>p t. lower ''get_widget'' = p @ lower w @ t)
   \<and> build_operations [''client'' \<mapsto> widgets] (Some default_controls)
       = Inr [\<lparr> client = [''client'' \<mapsto> widgets], name = ''create_widget'',
                description = ''Create a widget.'' \<rparr>,
              \<lparr> client = [''client'' \<mapsto> widgets], name = ''get_widget'',
                description = ''Get a widget.'' \<rparr>]
   \<and> public_callable widgets ''get_widget''
   \<and> category_matches (read default_controls) (read_list default_controls) ''get_widget''
   \<and> \<not> public_callable widgets ''_internal''"
proof -
  let ?h = "[''client'' \<mapsto> widgets]"
  let ?ops = "[\<lparr> client = ?h, name = ''create_widget'', description = ''Create a widget.'' \<rparr>,
              \<lparr> client = ?h, name = ''get_widget'', description = ''Get a widget.'' \<rparr>]"
  have h: "?h ''client'' = Some widgets" by simp
  note t = classification_and_retention [of ?h widgets True "Some [''get'', ''read'', ''list'']"
      "''get_widget''" default_controls ?ops, OF h]
  have c: "category_matches True (Some [''get'', ''read'', ''list'']) ''get_widget''"
    by (simp add: category_matches_def read_get_widget)
  with t have s: "\<exists>w\<in>set [''get'', ''read'', ''list'']. \<exists>p t. lower ''get_widget'' = p @ lower w @ t"
    by blast
  from t build_widgets_default
  have n: "\<forall>n. n \<in> name ` set ?ops \<longleftrightarrow>
                    n \<in> set (dir_names widgets) \<and> public_callable widgets n
                    \<and> (category_matches (create default_controls) (create_list default_controls) n
                       \<or> category_matches (read default_controls) (read_list default_controls) n
                       \<or> category_matches (update default_controls) (update_list default_controls) n
                       \<or> category_matches (delete default_controls) (delete_list default_controls) n)"
    by blast
  from n [rule_format, of "''get_widget''"]
  have pg: "public_callable widgets ''get_widget''"
    and mg: "category_matches (read default_controls) (read_list default_controls) ''get_widget''"
    by (simp_all add: default_controls_def category_matches_def)
  from n [rule_format, of "''_internal''"]
  have pi: "\<not> public_callable widgets ''_internal''"
    by (simp add: public_callable_def)
  from h documented_widgets c s build_widgets_default pg mg pi show ?thesis
    by (intro conjI)
qed

text \<open>
  Claim C2, as amended. When the name of the operation does not resolve to an attribute of the
  client at call time, \<^verbatim>\<open>_run\<close> returns exactly the text \<^verbatim>\<open>Invalid function name: <name>\<close>
  and raises nothing, for every tool input whose decoding raises nothing but
  \<^verbatim>\<open>JSONDecodeError\<close>: every mapping, every input that is not a string, and every string that
  \<^verbatim>\<open>json.loads\<close> decodes or rejects with that exception. The decoding comes before the lookup
  and the inner handler catches \<^verbatim>\<open>JSONDecodeError\<close> only: another exception of the decoder
  leaves \<^verbatim>\<open>_run\<close>, whether the name resolves or not.
\<close>

theorem run_invalid_name:
  assumes "client self ''client'' = Some c" and "map_of c (name self) = None"
  shows "((\<forall>s e. tool_input = PyStr s \<and> loads s = Inl e \<longrightarrow> e = JSONDecodeError) \<longrightarrow>
            run loads dumps self tool_input = Inr (''Invalid function name: '' @ name self))
       \<and> (loads s = Inl e \<and> e \<noteq> JSONDecodeError \<longrightarrow>
            run loads dumps self (PyStr s)
              = (if e = AttributeError then Inr (''Invalid function name: '' @ name self)
                 else Inl e))"
proof (intro conjI impI)
  assume d: "\<forall>s e. tool_input = PyStr s \<and> loads s = Inl e \<longrightarrow> e = JSONDecodeError"
  have "\<exists>params. resolve_params loads tool_input = Inr params"
  proof (cases tool_input)
    case (PyStr s)
    show ?thesis
    proof (cases "loads s")
      case (Inl e)
      with d PyStr have "e = JSONDecodeError" by blast
      with Inl PyStr show ?thesis by simp
    next
      case (Inr v)
      with PyStr show ?thesis by simp
    qed
  qed simp_all
  then show "run loads dumps self tool_input = Inr (''Invalid function name: '' @ name self)"
    unfolding run_unresolved [OF assms] by auto
next
  assume "loads s = Inl e \<and> e \<noteq> JSONDecodeError"
  then have "resolve_params loads (PyStr s) = Inl e"
    by (cases e) simp_all
  then show "run loads dumps self (PyStr s)
              = (if e = AttributeError then Inr (''Invalid function name: '' @ name self)
                 else Inl e)"
    unfolding run_unresolved [OF assms] by simp
qed

theorem run_invalid_name_witness:
  "client \<lparr> client = [''client'' \<mapsto> widgets], name = ''drop_widget'', description = ''Drop it.'' \<rparr>
      ''client'' = Some widgets
   \<and> map_of widgets
        (name \<lparr> client = [''client'' \<mapsto> widgets], name = ''drop_widget'', description = ''Drop it.'' \<rparr>) = None
   \<and> loads_sample ''not valid json'' = Inl JSONDecodeError
   \<and> run loads_sample dumps_sample
        \<lparr> client = [''client'' \<mapsto> widgets], name = ''drop_widget'', description = ''Drop it.'' \<rparr>
        (PyStr ''not valid json'') = Inr ''Invalid function name: drop_widget''
   \<and> run loads_sample dumps_sample
        \<lparr> client = [''client'' \<mapsto> widgets], name = ''drop_widget'', description = ''Drop it.'' \<rparr>
        (PyDict [(PyStr ''id'', PyInt 5)]) = Inr ''Invalid function name: drop_widget''
   \<and> loads_sample (replicate 100000 (CHR ''['')) = Inl RecursionError
   \<and> run loads_sample dumps_sample
        \<lparr> client = [''client'' \<mapsto> widgets], name = ''drop_widget'', description = ''Drop it.'' \<rparr>
        (PyStr (replicate 100000 (CHR ''[''))) = Inl RecursionError"
proof -
  let ?t = "\<lparr> client = [''client'' \<mapsto> widgets], name = ''drop_widget'', description = ''Drop it.'' \<rparr>"
  have a: "client ?t ''client'' = Some widgets" by simp
  have b: "map_of widgets (name ?t) = None" by (simp add: widgets_def widget_client_def)
  note t = run_invalid_name [of ?t widgets, OF a b]
  have d1: "\<forall>s e. PyStr ''not valid json'' = PyStr s \<and> loads_sample s = Inl e \<longrightarrow> e = JSONDecodeError"
    by (simp add: loads_sample_invalid)
  have d2: "\<forall>s e. PyDict [(PyStr ''id'', PyInt 5)] = PyStr s \<and> loads_sample s = Inl e \<longrightarrow> e = JSONDecodeError"
    by simp
  from t [where tool_input = "PyStr ''not valid json''" and loads = loads_sample
      and dumps = dumps_sample, THEN conjunct1, THEN mp, OF d1]
  have r1: "run loads_sample dumps_sample ?t (PyStr ''not valid json'')
      = Inr ''Invalid function name: drop_widget''" by simp
  from t [where tool_input = "PyDict [(PyStr ''id'', PyInt 5)]" and loads = loads_sample
      and dumps = dumps_sample, THEN conjunct1, THEN mp, OF d2]
  have r2: "run loads_sample dumps_sample ?t (PyDict [(PyStr ''id'', PyInt 5)])
      = Inr ''Invalid function name: drop_widget''" by simp
  from t [where loads = loads_sample and dumps = dumps_sample
      and s = "replicate 100000 (CHR ''['')" and e = RecursionError, THEN conjunct2]
  have r3: "run loads_sample dumps_sample ?t (PyStr (replicate 100000 (CHR ''[''))) = Inl RecursionError"
    by (simp add: loads_sample_brackets)
  from a b loads_sample_invalid r1 r2 loads_sample_brackets r3 show ?thesis
    by (intro conjI)
qed

text \<open>The claim as stated fails on a text of 5000 digits, on which the decoder raises
  \<^verbatim>\<open>ValueError\<close>: \<^verbatim>\<open>_run\<close> raises it, although the name does not resolve.\<close>

theorem run_invalid_name_counterexample:
  "map_of widgets ''drop_widget'' = None
   \<and> run loads_sample dumps_sample
        \<lparr> client = [''client'' \<mapsto> widgets], name = ''drop_widget'', description = ''Drop it.'' \<rparr>
        (PyStr (replicate 5000 (CHR ''1''))) = Inl ValueError
   \<and> run loads_sample dumps_sample
        \<lparr> client = [''client'' \<mapsto> widgets], name = ''drop_widget'', description = ''Drop it.'' \<rparr>
        (PyStr (replicate 5000 (CHR ''1''))) \<noteq> Inr ''Invalid function name: drop_widget''"
  by (simp add: run_def run_body_def bind_exc_def loads_sample_digits widgets_def
      widget_client_def)

text \<open>
  Claim C3. The claim says that \<^verbatim>\<open>_run\<close> shields the name resolution only and lets every
  exception of the underlying call through, an \<^verbatim>\<open>AttributeError\<close> raised inside the call
  included. The \<^verbatim>\<open>try\<close> block of the source encloses the call and the encoding of its result:
  for a method \<^verbatim>\<open>get_widget\<close> that exists on the client and raises \<^verbatim>\<open>AttributeError\<close> from
  inside, \<^verbatim>\<open>_run\<close> returns \<^verbatim>\<open>Invalid function name: get_widget\<close>. Exceptions of the other
  classes do pass (lemma \<open>run_propagates_other\<close>).
\<close>

theorem inner_AttributeError_reported_as_invalid_name:
  "map_of faulty_client ''get_widget''
     = Some (Callable (\<lambda>kw. Inl AttributeError) (Some ''Get a widget.''))
   \<and> run loads_sample dumps_sample
        \<lparr> client = [''client'' \<mapsto> faulty_client], name = ''get_widget'',
          description = ''Get a widget.'' \<rparr> (PyDict [])
      = Inr ''Invalid function name: get_widget''"
  by (simp add: run_def run_body_def the_client_def getattr_def bind_exc_def faulty_client_def)

text \<open>
  Claim C4, as amended. The keyword arguments are determined by the shape of the tool input.
  A mapping is used as it is: the method is called with exactly its entries (a key that is
  not a string is a \<^verbatim>\<open>TypeError\<close> of the call). A string is decoded as JSON and the decoded
  value is used; when the decoder raises \<^verbatim>\<open>JSONDecodeError\<close> the arguments are empty, nothing
  is raised for it and the method is called without arguments; any other exception of the
  decoder is not caught by the inner handler and leaves \<^verbatim>\<open>_run\<close>. An input of any other type
  gives empty arguments.
\<close>

theorem params_from_input_shape:
  assumes "client self ''client'' = Some c" and "map_of c (name self) = Some (Callable f d)"
  shows "run loads dumps self (PyDict (map (\<lambda>(k, v). (PyStr k, v)) kw))
           = (case bind_exc (f kw) dumps of
                Inl AttributeError \<Rightarrow> Inr (''Invalid function name: '' @ name self)
              | Inl e \<Rightarrow> Inl e
              | Inr r \<Rightarrow> Inr r)
       \<and> (str_keys kvs = None \<longrightarrow> run loads dumps self (PyDict kvs) = Inl TypeError)
       \<and> (loads s = Inr (PyDict kvs) \<longrightarrow>
            run loads dumps self (PyStr s) = run loads dumps self (PyDict kvs))
       \<and> (loads s = Inr v \<and> (\<forall>kvs. v \<noteq> PyDict kvs) \<longrightarrow>
            run loads dumps self (PyStr s) = Inl TypeError)
       \<and> (loads s = Inl JSONDecodeError \<longrightarrow>
            run loads dumps self (PyStr s) = run loads dumps self (PyDict []))
       \<and> (loads s = Inl e \<and> e \<noteq> JSONDecodeError \<longrightarrow>
            run loads dumps self (PyStr s)
              = (if e = AttributeError then Inr (''Invalid function name: '' @ name self)
                 else Inl e))
       \<and> ((\<forall>kvs. x \<noteq> PyDict kvs) \<and> (\<forall>s. x \<noteq> PyStr s) \<longrightarrow>
            run loads dumps self x = run loads dumps self (PyDict []))"
proof (intro conjI impI)
  note r = run_resolved [OF assms]
  show "run loads dumps self (PyDict (map (\<lambda>(k, v). (PyStr k, v)) kw))
           = (case bind_exc (f kw) dumps of
                Inl AttributeError \<Rightarrow> Inr (''Invalid function name: '' @ name self)
              | Inl e \<Rightarrow> Inl e
              | Inr r \<Rightarrow> Inr r)"
    unfolding r by (simp add: bind_exc_def str_keys_of_kwargs)
  show "run loads dumps self (PyDict kvs) = Inl TypeError" if "str_keys kvs = None"
    unfolding r using that by (simp add: bind_exc_def)
  show "run loads dumps self (PyStr s) = run loads dumps self (PyDict kvs)"
    if "loads s = Inr (PyDict kvs)"
    unfolding r using that by (simp add: bind_exc_def)
  show "run loads dumps self (PyStr s) = Inl TypeError"
    if "loads s = Inr v \<and> (\<forall>kvs. v \<noteq> PyDict kvs)"
    unfolding r using that by (cases v) (simp_all add: bind_exc_def)
  show "run loads dumps self (PyStr s) = run loads dumps self (PyDict [])"
    if "loads s = Inl JSONDecodeError"
    unfolding r using that by (simp add: bind_exc_def)
  show "run loads dumps self (PyStr s)
              = (if e = AttributeError then Inr (''Invalid function name: '' @ name self)
                 else Inl e)"
    if "loads s = Inl e \<and> e \<noteq> JSONDecodeError"
    unfolding r using that by (cases e) (simp_all add: bind_exc_def)
  show "run loads dumps self x = run loads dumps self (PyDict [])"
    if "(\<forall>kvs. x \<noteq> PyDict kvs) \<and> (\<forall>s. x \<noteq> PyStr s)"
    unfolding r using that by (cases x) (simp_all add: bind_exc_def)
qed

theorem params_from_input_shape_witness:
  "client \<lparr> client = [''client'' \<mapsto> echo_client], name = ''get_item'',
            description = ''Get an item.'' \<rparr> ''client'' = Some echo_client
   \<and> map_of echo_client ''get_item''
       = Some (Callable (\<lambda>kw. case map_of kw ''id'' of None \<Rightarrow> Inr PyNone | Some v \<Rightarrow> Inr v)
                 (Some ''Get an item.''))
   \<and> run loads_sample dumps_sample
        \<lparr> client = [''client'' \<mapsto> echo_client], name = ''get_item'',
          description = ''Get an item.'' \<rparr> (PyDict [(PyStr ''id'', PyBool True)]) = Inr ''true''
   \<and> loads_sample ''not valid json'' = Inl JSONDecodeError
   \<and> run loads_sample dumps_sample
        \<lparr> client = [''client'' \<mapsto> echo_client], name = ''get_item'',
          description = ''Get an item.'' \<rparr> (PyStr ''not valid json'') = Inr ''null''
   \<and> run loads_sample dumps_sample
        \<lparr> client = [''client'' \<mapsto> echo_client], name = ''get_item'',
          description = ''Get an item.'' \<rparr> (PyInt 7) = Inr ''null''
   \<and> loads_sample ''5'' = Inr (PyInt 5)
   \<and> run loads_sample dumps_sample
        \<lparr> client = [''client'' \<mapsto> echo_client], name = ''get_item'',
          description = ''Get an item.'' \<rparr> (PyStr ''5'') = Inl TypeError"
proof -
  let ?t = "\<lparr> client = [''client'' \<mapsto> echo_client], name = ''get_item'',
              description = ''Get an item.'' \<rparr>"
  let ?f = "\<lambda>kw. case map_of kw ''id'' of None \<Rightarrow> Inr PyNone | Some v \<Rightarrow> Inr v"
  have a: "client ?t ''client'' = Some echo_client" by simp
  have b: "map_of echo_client (name ?t) = Some (Callable ?f (Some ''Get an item.''))"
    by (simp add: echo_client_def)
  have l5: "loads_sample ''5'' = Inr (PyInt 5)" by (simp add: loads_sample_def)
  note t = params_from_input_shape [of ?t echo_client ?f "Some ''Get an item.''", OF a b,
      where loads = loads_sample and dumps = dumps_sample]
  from t [where kw = "[(''id'', PyBool True)]", THEN conjunct1]
  have r1: "run loads_sample dumps_sample ?t (PyDict [(PyStr ''id'', PyBool True)]) = Inr ''true''"
    by (simp add: bind_exc_def)
  from t [where kw = "[]", THEN conjunct1]
  have r0: "run loads_sample dumps_sample ?t (PyDict []) = Inr ''null''"
    by (simp add: bind_exc_def)
  from t [where s = "''not valid json''", THEN conjunct2, THEN conjunct2, THEN conjunct2,
      THEN conjunct2, THEN conjunct1, THEN mp, OF loads_sample_invalid] r0
  have r2: "run loads_sample dumps_sample ?t (PyStr ''not valid json'') = Inr ''null''"
    by simp
  from t [where x = "PyInt 7", THEN conjunct2, THEN conjunct2, THEN conjunct2,
      THEN conjunct2, THEN conjunct2, THEN conjunct2] r0
  have r3: "run loads_sample dumps_sample ?t (PyInt 7) = Inr ''null''"
    by simp
  from t [where s = "''5''" and v = "PyInt 5", THEN conjunct2, THEN conjunct2, THEN conjunct2,
      THEN conjunct1] l5
  have r4: "run loads_sample dumps_sample ?t (PyStr ''5'') = Inl TypeError"
    by simp
  from a b r1 loads_sample_invalid r2 r3 l5 r4 show ?thesis
    by (simp only: simp_thms AnySDKTool.simps)
qed

text \<open>The claim as stated fails on a text of 100000 opening brackets: it is no JSON text, the
  decoder raises \<^verbatim>\<open>RecursionError\<close>, and \<^verbatim>\<open>_run\<close> raises it instead of calling the method
  without arguments.\<close>

theorem params_from_input_shape_counterexample:
  "map_of echo_client ''get_item''
       = Some (Callable (\<lambda>kw. case map_of kw ''id'' of None \<Rightarrow> Inr PyNone | Some v \<Rightarrow> Inr v)
                 (Some ''Get an item.''))
   \<and> loads_sample (replicate 100000 (CHR ''['')) = Inl RecursionError
   \<and> run loads_sample dumps_sample
        \<lparr> client = [''client'' \<mapsto> echo_client], name = ''get_item'',
          description = ''Get an item.'' \<rparr> (PyStr (replicate 100000 (CHR ''['')))
       = Inl RecursionError
   \<and> run loads_sample dumps_sample
        \<lparr> client = [''client'' \<mapsto> echo_client], name = ''get_item'',
          description = ''Get an item.'' \<rparr> (PyStr (replicate 100000 (CHR ''['')))
       \<noteq> run loads_sample dumps_sample
        \<lparr> client = [''client'' \<mapsto> echo_client], name = ''get_item'',
          description = ''Get an item.'' \<rparr> (PyDict [])"
  by (simp add: run_def run_body_def bind_exc_def loads_sample_brackets echo_client_def
      the_client_def getattr_def)

text \<open>
  Claim C5. Built without CRUD controls (\<^verbatim>\<open>crud_controls\<close> is \<^verbatim>\<open>None\<close>), the operations list
  is empty, also when the client has public callables whose names contain a default
  keyword: whenever \<^verbatim>\<open>_build_operations\<close> returns a list, the list is empty, and it returns
  one for every client whose public callables carry documentation strings.
\<close>

theorem policy_absent_no_operations:
  assumes "h ''client'' = Some c"
  shows "(documented c \<longrightarrow> build_operations h None = Inr [])
       \<and> (build_operations h None = Inr ops \<longrightarrow> ops = [])"
proof -
  have d: "build_operations h None = Inr []" if "documented c"
    using build_operations_eq [of h c None] assms that by (simp add: appended_None)
  have "ops = []" if "build_operations h None = Inr ops"
  proof -
    from assms that have "documented c" by (rule build_operations_Inr_documented)
    with d that show ?thesis by simp
  qed
  with d show ?thesis by blast
qed

theorem policy_absent_no_operations_witness:
  "[''client'' \<mapsto> widgets] ''client'' = Some widgets \<and> documented widgets
   \<and> public_callable widgets ''get_widget''
   \<and> any_word_in (split_comma ANYSDK_CRUD_CONTROLS_READ_LIST) ''get_widget''
   \<and> build_operations [''client'' \<mapsto> widgets] None = Inr []"
proof -
  have h: "[''client'' \<mapsto> widgets] ''client'' = Some widgets" by simp
  have p: "public_callable widgets ''get_widget''"
    by (simp add: widgets_def widget_client_def public_callable_def)
  from policy_absent_no_operations [of "[''client'' \<mapsto> widgets]" widgets "[]", OF h]
  have "build_operations [''client'' \<mapsto> widgets] None = Inr []"
    using documented_widgets by (elim conjE) simp
  with h documented_widgets p get_widget_read show ?thesis by (intro conjI)
qed

text \<open>
  Claim C6, as amended. For the client with the methods \<^verbatim>\<open>_internal\<close>, \<^verbatim>\<open>create_widget\<close> and
  \<^verbatim>\<open>get_widget\<close> and the default controls (only read enabled, with the keywords get, read and
  list), the operations list holds two operations, \<^verbatim>\<open>create_widget\<close> and \<^verbatim>\<open>get_widget\<close>, in
  this order. The create gate is disabled, but \<^verbatim>\<open>create_widget\<close> contains the read keyword
  \<^verbatim>\<open>get\<close> (in \<^verbatim>\<open>widget\<close>); \<^verbatim>\<open>_internal\<close> starts with an underscore and is not enumerated.
\<close>

theorem default_policy_widgets:
  "CrudControls_init (get_from_dict_or_env Map.empty) Map.empty = Inr default_controls
   \<and> \<not> create default_controls \<and> read default_controls
   \<and> read_list default_controls = Some [''get'', ''read'', ''list'']
   \<and> str_in (lower ''get'') (lower ''create_widget'')
   \<and> startswith ''_internal'' ''_''
   \<and> build_operations [''client'' \<mapsto> widget_client f0 d0 f1 (Some d1) f2 (Some d2)]
        (Some default_controls)
      = Inr [\<lparr> client = [''client'' \<mapsto> widget_client f0 d0 f1 (Some d1) f2 (Some d2)],
               name = ''create_widget'', description = d1 \<rparr>,
             \<lparr> client = [''client'' \<mapsto> widget_client f0 d0 f1 (Some d1) f2 (Some d2)],
               name = ''get_widget'', description = d2 \<rparr>]"
proof -
  let ?c = "widget_client f0 d0 f1 (Some d1) f2 (Some d2)"
  have "build_operations [''client'' \<mapsto> ?c] (Some default_controls)
      = Inr (concat (map (\<lambda>operation. replicate (match_count default_controls (name operation)) operation)
                    (wrapped [''client'' \<mapsto> ?c] ?c)))"
    by (rule build_operations_Some) (simp_all add: documented_widget_client)
  then have "build_operations [''client'' \<mapsto> ?c] (Some default_controls)
      = Inr [\<lparr> client = [''client'' \<mapsto> ?c], name = ''create_widget'', description = d1 \<rparr>,
             \<lparr> client = [''client'' \<mapsto> ?c], name = ''get_widget'', description = d2 \<rparr>]"
    by (simp add: wrapped_widget_client default_get_widget default_create_widget)
  moreover have "\<not> create default_controls \<and> read default_controls
     \<and> read_list default_controls = Some [''get'', ''read'', ''list'']"
    by (simp add: default_controls_def)
  moreover have "str_in (lower ''get'') (lower ''create_widget'')"
    by code_simp
  ultimately show ?thesis
    by (simp add: CrudControls_init_defaults)
qed

text \<open>The claim as stated, that the list holds \<^verbatim>\<open>get_widget\<close> alone, fails on this client.\<close>

theorem default_policy_widgets_counterexample:
  "CrudControls_init (get_from_dict_or_env Map.empty) Map.empty = Inr default_controls
   \<and> map_sum id (map name)
        (build_operations [''client'' \<mapsto> widgets] (Some default_controls))
      = Inr [''create_widget'', ''get_widget'']
   \<and> map_sum id (map name)
        (build_operations [''client'' \<mapsto> widgets] (Some default_controls))
      \<noteq> Inr [''get_widget'']"
  by (simp add: build_widgets_default CrudControls_init_defaults)

text \<open>
  Claim C7. The claim says that the construction of the operations list raises nothing for
  any client, also when a documentation string is absent. The loop passes \<^verbatim>\<open>func.__doc__\<close>,
  which is \<^verbatim>\<open>None\<close> for a method without documentation string, to the field
  \<^verbatim>\<open>description: str\<close> of the tool, for every public callable and before the CRUD tests: a
  client with one undocumented public method has no operations list at all, whether that
  method qualifies (\<^verbatim>\<open>get_widget\<close>) or not (\<^verbatim>\<open>ping\<close>, next to a documented \<^verbatim>\<open>get_widget\<close>), and
  with or without CRUD controls. For the clients whose public callables are all documented
  the claim holds (lemma \<open>build_operations_cases\<close>).
\<close>

theorem undocumented_method_aborts_catalog:
  "public_callable undocumented_client ''get_widget''
   \<and> doc_at undocumented_client ''get_widget'' = None
   \<and> qualifies (Some default_controls) ''get_widget''
   \<and> build_operations [''client'' \<mapsto> undocumented_client] (Some default_controls)
       = Inl ValidationError
   \<and> doc_at mixed_client ''get_widget'' = Some ''Get a widget.''
   \<and> public_callable mixed_client ''ping''
   \<and> doc_at mixed_client ''ping'' = None
   \<and> \<not> qualifies (Some default_controls) ''ping''
   \<and> build_operations [''client'' \<mapsto> mixed_client] (Some default_controls)
       = Inl ValidationError
   \<and> build_operations [''client'' \<mapsto> mixed_client] None = Inl ValidationError"
proof -
  have p: "\<not> any_word_in [''get'', ''read'', ''list''] ''ping''" by code_simp
  have q: "\<not> qualifies (Some default_controls) ''ping''"
    by (simp add: qualifies_def match_count_def default_controls_def category_matches_def p)
  have u: "build_operations [''client'' \<mapsto> undocumented_client] (Some default_controls)
       = Inl ValidationError"
    by (simp add: build_operations_def the_client_def sdk_functions_def dir_names_def
      getattr_def bind_exc_def new_AnySDKTool_def undocumented_client_def)
  have m: "build_operations [''client'' \<mapsto> mixed_client] cc = Inl ValidationError" for cc
    by (simp add: build_operations_def the_client_def sdk_functions_def dir_names_def
      getattr_def bind_exc_def new_AnySDKTool_def mixed_client_def)
  have f: "public_callable undocumented_client ''get_widget''
     \<and> doc_at undocumented_client ''get_widget'' = None
     \<and> qualifies (Some default_controls) ''get_widget''
     \<and> doc_at mixed_client ''get_widget'' = Some ''Get a widget.''
     \<and> public_callable mixed_client ''ping''
     \<and> doc_at mixed_client ''ping'' = None"
    by (simp add: undocumented_client_def mixed_client_def public_callable_def
      doc_at_def qualifies_def default_get_widget)
  from f u q m [of "Some default_controls"] m [of None] show ?thesis
    by (simp only: simp_thms)
qed




text \<open>
  Claim C9. For each public callable the loop appends the same operation once per category
  test that passes, in the order create, read, update, delete; so a name occurs in the
  operations list as many times as categories match it, and a name that matches two enabled
  categories occurs twice.
\<close>

theorem one_operation_per_matching_category:
  assumes "h ''client'' = Some c"
  shows "(documented c \<longrightarrow> (\<exists>ops. build_operations h (Some cc) = Inr ops))
     \<and> (build_operations h (Some cc) = Inr ops \<longrightarrow>
          ops = concat (map (\<lambda>operation.
                (if category_matches (create cc) (create_list cc) (name operation)
                 then [operation] else [])
                @ (if category_matches (read cc) (read_list cc) (name operation)
                   then [operation] else [])
                @ (if category_matches (update cc) (update_list cc) (name operation)
                   then [operation] else [])
                @ (if category_matches (delete cc) (delete_list cc) (name operation)
                   then [operation] else []))
              (wrapped h c))
          \<and> (\<forall>n. count_list (map name ops) n
                 = count_list (filter (public_callable c) (dir_names c)) n * match_count cc n))"
proof (intro conjI impI)
  assume "documented c"
  with assms show "\<exists>ops. build_operations h (Some cc) = Inr ops"
    using build_operations_Some by blast
next
  let ?ops = "concat (map (\<lambda>operation. replicate (match_count cc (name operation)) operation)
                        (wrapped h c))"
  assume b: "build_operations h (Some cc) = Inr ops"
  with assms have "documented c" by (rule build_operations_Inr_documented)
  with assms have "build_operations h (Some cc) = Inr ?ops"
    by (rule build_operations_Some)
  with b have o: "ops = ?ops" by simp
  have "?ops = concat (map (\<lambda>operation.
                (if category_matches (create cc) (create_list cc) (name operation)
                 then [operation] else [])
                @ (if category_matches (read cc) (read_list cc) (name operation)
                   then [operation] else [])
                @ (if category_matches (update cc) (update_list cc) (name operation)
                   then [operation] else [])
                @ (if category_matches (delete cc) (delete_list cc) (name operation)
                   then [operation] else []))
              (wrapped h c))"
    by (rule arg_cong [of _ _ concat], rule map_cong [OF refl]) (simp add: match_count_def)
  with o show "ops = concat (map (\<lambda>operation.
                (if category_matches (create cc) (create_list cc) (name operation)
                 then [operation] else [])
                @ (if category_matches (read cc) (read_list cc) (name operation)
                   then [operation] else [])
                @ (if category_matches (update cc) (update_list cc) (name operation)
                   then [operation] else [])
                @ (if category_matches (delete cc) (delete_list cc) (name operation)
                   then [operation] else []))
              (wrapped h c))"
    by simp
  have "\<forall>n. count_list (map name ?ops) n
            = count_list (filter (public_callable c) (dir_names c)) n * match_count cc n"
    unfolding wrapped_def names_of_replicated by (simp add: count_list_names)
  with o show "\<forall>n. count_list (map name ops) n
            = count_list (filter (public_callable c) (dir_names c)) n * match_count cc n"
    by simp
qed

theorem one_operation_per_matching_category_witness:
  "[''client'' \<mapsto> registry_client] ''client'' = Some registry_client
   \<and> documented registry_client
   \<and> category_matches (create create_read_controls) (create_list create_read_controls)
        ''get_or_create''
   \<and> category_matches (read create_read_controls) (read_list create_read_controls)
        ''get_or_create''
   \<and> (\<exists>ops. build_operations [''client'' \<mapsto> registry_client] (Some create_read_controls)
             = Inr ops
          \<and> count_list (map name ops) ''get_or_create'' = 2
          \<and> ops = [\<lparr> client = [''client'' \<mapsto> registry_client], name = ''get_or_create'',
                       description = ''Get or create.'' \<rparr>,
                     \<lparr> client = [''client'' \<mapsto> registry_client], name = ''get_or_create'',
                       description = ''Get or create.'' \<rparr>])"
proof -
  let ?h = "[''client'' \<mapsto> registry_client]"
  have h: "?h ''client'' = Some registry_client" by simp
  have d: "documented registry_client"
    by (simp add: documented_def registry_client_def dir_names_def public_callable_def doc_at_def)
  have w: "wrapped ?h registry_client
     = [\<lparr> client = ?h, name = ''get_or_create'', description = ''Get or create.'' \<rparr>]"
    by (simp add: wrapped_def tool_for_def registry_client_def dir_names_def public_callable_def
        doc_at_def)
  have p: "filter (public_callable registry_client) (dir_names registry_client) = [''get_or_create'']"
    by (simp add: registry_client_def dir_names_def public_callable_def)
  have m1: "category_matches (create create_read_controls) (create_list create_read_controls)
             ''get_or_create''"
    by (simp add: create_read_controls_def category_matches_def create_get_or_create)
  have m2: "category_matches (read create_read_controls) (read_list create_read_controls)
             ''get_or_create''"
    by (simp add: create_read_controls_def category_matches_def read_get_or_create)
  have m3: "\<not> category_matches (update create_read_controls) (update_list create_read_controls)
             ''get_or_create''"
    by (simp add: create_read_controls_def category_matches_def)
  have m4: "\<not> category_matches (delete create_read_controls) (delete_list create_read_controls)
             ''get_or_create''"
    by (simp add: create_read_controls_def category_matches_def)
  note t = one_operation_per_matching_category [of ?h registry_client create_read_controls, OF h]
  from t [THEN conjunct1, rule_format, OF d]
  obtain ops where b: "build_operations ?h (Some create_read_controls) = Inr ops" ..
  note r = t [of ops, THEN conjunct2, THEN mp, OF b]
  note e = r [THEN conjunct1] and n = r [THEN conjunct2]
  from e have e': "ops = [\<lparr> client = ?h, name = ''get_or_create'', description = ''Get or create.'' \<rparr>,
                     \<lparr> client = ?h, name = ''get_or_create'', description = ''Get or create.'' \<rparr>]"
    by (simp add: w m1 m2 m3 m4)
  from n have n': "count_list (map name ops) ''get_or_create'' = 2"
    by (simp add: p match_count_get_or_create)
  from b n' e' have "\<exists>ops. build_operations ?h (Some create_read_controls) = Inr ops
          \<and> count_list (map name ops) ''get_or_create'' = 2
          \<and> ops = [\<lparr> client = ?h, name = ''get_or_create'', description = ''Get or create.'' \<rparr>,
                     \<lparr> client = ?h, name = ''get_or_create'', description = ''Get or create.'' \<rparr>]"
    by (intro exI [of _ ops] conjI)
  with h d m1 m2 show ?thesis by (intro conjI)
qed



end
